theory Spec2Isabelle
  imports Complex_Main "HOL-Library.Finite_Map"
begin

section \<open>Values shared by publisher and subscriber\<close>

text \<open>
  A decoded JSON document, as Python's \<open>json.loads\<close> returns it. A float keeps its exact
  value (every finite double is a rational); the three non-finite constants the decoder
  accepts are separate. An object is the dict the decoder built, given by its items.
\<close>

datatype pyfloat = FVal rat | FPosInf | FNegInf | FNaN

datatype json =
    JNull
  | JBool bool
  | JInt int
  | JFloat pyfloat
  | JStr string
  | JArr "json list"
  | JObj "(string \<times> json) list"

text \<open>
  The key under which a Python dict files a value. Numbers that compare equal are one key
  (\<open>True == 1 == 1.0\<close>); lists and dicts cannot be hashed, so they are no key at all.
  The decoder hands out one and the same NaN object for every \<open>NaN\<close> literal, and a dict
  compares keys by identity first.
\<close>

datatype pykey = KNone | KNum rat | KPosInf | KNegInf | KNaN | KStr string

fun hash_key :: "json \<Rightarrow> pykey option" where
  "hash_key JNull = Some KNone"
| "hash_key (JBool b) = Some (KNum (if b then 1 else 0))"
| "hash_key (JInt i) = Some (KNum (of_int i))"
| "hash_key (JFloat (FVal r)) = Some (KNum r)"
| "hash_key (JFloat FPosInf) = Some KPosInf"
| "hash_key (JFloat FNegInf) = Some KNegInf"
| "hash_key (JFloat FNaN) = Some KNaN"
| "hash_key (JStr s) = Some (KStr s)"
| "hash_key (JArr xs) = None"
| "hash_key (JObj kvs) = None"

text \<open>The exceptions the modelled code can meet, by the place that raises them.\<close>

datatype exn =
    DecodeError
  | AttributeError
  | TypeError
  | ValueError
  | TransportError string

text \<open>\<open>d.get(key, default)\<close>: only a dict has the method.\<close>

fun dict_get :: "json \<Rightarrow> string \<Rightarrow> json \<Rightarrow> exn + json" where
  "dict_get (JObj kvs) k dflt = Inr (case map_of kvs k of None \<Rightarrow> dflt | Some v \<Rightarrow> v)"
| "dict_get other k dflt = Inl AttributeError"

text \<open>\<open>needle in haystack\<close> on strings.\<close>

fun str_contains :: "string \<Rightarrow> string \<Rightarrow> bool" where
  "str_contains needle [] = (needle = [])"
| "str_contains needle (c # cs) =
     (take (length needle) (c # cs) = needle \<or> str_contains needle cs)"

text \<open>
  What a call does besides changing the object: the console lines (abstracted to ASCII
  tags), the sleeps, the calls on the MQTT connection and the threads it starts, in order.
\<close>

datatype effect =
    Log string
  | Sleep rat
  | MqttSetup string
  | MqttConnect
  | MqttSubscribe string
  | MqttPublish string json
  | MqttDisconnect
  | ThreadStart int

text \<open>What the transport answers to a call: a value, or an exception with its text.\<close>

datatype 'a reply = Ok 'a | Raises string

section \<open>config.py\<close>

record aws_iot_config =
  endpoint :: string
  root_ca_path :: string
  cert_path :: string
  private_key_path :: string
  client_id_prefix :: string
  topic_prefix :: string
  shared_subscription_group :: string

definition get_shared_topic :: "aws_iot_config \<Rightarrow> string" where
  "get_shared_topic c =
     ''$share/'' @ shared_subscription_group c @ ''/'' @ topic_prefix c @ ''/messages''"

definition get_publish_topic :: "aws_iot_config \<Rightarrow> string" where
  "get_publish_topic c = topic_prefix c @ ''/messages''"

text \<open>
  \<open>validate\<close>: the loop over the three required files, leaving at the first one that
  \<open>os.path.exists\<close> (the parameter \<open>path_exists\<close>) does not find.
\<close>

fun validate_loop :: "(string \<Rightarrow> bool) \<Rightarrow> string list \<Rightarrow> effect list \<times> bool" where
  "validate_loop path_exists [] = ([], True)"
| "validate_loop path_exists (file_path # rest) =
     (if \<not> path_exists file_path then ([Log (''certificate file not found: '' @ file_path)], False)
      else validate_loop path_exists rest)"

definition validate :: "(string \<Rightarrow> bool) \<Rightarrow> aws_iot_config \<Rightarrow> effect list \<times> bool" where
  "validate path_exists c =
     validate_loop path_exists [root_ca_path c, cert_path c, private_key_path c]"

section \<open>subscriber.py: IoTSharedSubscriber\<close>

text \<open>One entry of \<open>processed_messages\<close>.\<close>

record received =
  received_at :: string
  topic :: string
  qos :: int
  data :: json

text \<open>
  The subscriber object. \<open>mqtt_connection\<close> tells whether the attribute holds a connection
  (it is \<open>None\<close> until the first \<open>connect\<close>); \<open>processed_messages\<close> is the dict, a finite
  map from keys to entries.
\<close>

record subscriber =
  config :: aws_iot_config
  subscriber_id :: string
  client_id :: string
  mqtt_connection :: bool
  is_connected :: bool
  message_count :: int
  processed_messages :: "(pykey, received) fmap"
  should_disconnect :: bool
  disconnect_duration :: int

definition new_subscriber :: "aws_iot_config \<Rightarrow> string \<Rightarrow> subscriber" where
  "new_subscriber c sid =
     \<lparr> config = c,
       subscriber_id = sid,
       client_id = client_id_prefix c @ ''-subscriber-'' @ sid,
       mqtt_connection = False,
       is_connected = False,
       message_count = 0,
       processed_messages = fmempty,
       should_disconnect = False,
       disconnect_duration = 0 \<rparr>"

definition on_connection_interrupted :: "subscriber \<Rightarrow> effect list \<times> subscriber" where
  "on_connection_interrupted s =
     ([Log ''connection interrupted''] @
      (if \<not> should_disconnect s then [Log ''unexpected disconnect, waiting for reconnect''] else []),
      s\<lparr>is_connected := False\<rparr>)"

definition on_connection_resumed :: "bool \<Rightarrow> subscriber \<Rightarrow> effect list \<times> subscriber" where
  "on_connection_resumed session_present s =
     ([Log ''connection resumed''] @
      (if session_present then [Log ''receiving queued messages''] else []),
      s\<lparr>is_connected := True\<rparr>)"

text \<open>
  The QoS argument of the arrival callback: a member of the \<open>mqtt.QoS\<close> enum, whose
  \<open>value\<close> is read, or a plain integer, taken as it is.
\<close>

datatype qos_arg = QoSMember int | QoSPlain int

fun qos_value :: "qos_arg \<Rightarrow> int" where
  "qos_value (QoSMember v) = v"
| "qos_value (QoSPlain v) = v"

text \<open>
  One call of the arrival callback: its arguments, and what the clock reads at
  \<open>datetime.now()\<close>. \<open>dup\<close> and \<open>retain\<close> are not read by the code.
\<close>

record arrival =
  arr_topic :: string
  arr_payload :: string
  arr_qos :: qos_arg
  arr_now :: string

text \<open>
  The \<open>try\<close> block of \<open>_on_message_received\<close>. The parameter \<open>loads\<close> is
  \<open>json.loads(payload.decode())\<close>: \<open>None\<close> when either call raises. The result is the
  exception that leaves the block, if any, with the object as it is at that moment: the
  counter is incremented before the dict is written, so an unhashable id raises after the
  increment.
\<close>

definition message_try :: "(string \<Rightarrow> json option) \<Rightarrow> arrival \<Rightarrow> subscriber \<Rightarrow>
    exn option \<times> effect list \<times> subscriber" where
  "message_try loads a s =
     (case loads (arr_payload a) of
        None \<Rightarrow> (Some DecodeError, [], s)
      | Some message_data \<Rightarrow>
          (case dict_get message_data ''message_id'' (JStr ''unknown'') of
             Inl e \<Rightarrow> (Some e, [], s)
           | Inr message_id \<Rightarrow>
               (let s1 = s\<lparr>message_count := message_count s + 1\<rparr> in
                case hash_key message_id of
                  None \<Rightarrow> (Some TypeError, [], s1)
                | Some k \<Rightarrow>
                    (None,
                     [Log ''message received'', Sleep (1 / 10)],
                     s1\<lparr>processed_messages :=
                          fmupd k \<lparr> received_at = arr_now a, topic = arr_topic a,
                                     qos = qos_value (arr_qos a), data = message_data \<rparr>
                            (processed_messages s1)\<rparr>))))"

text \<open>
  \<open>_on_message_received\<close>: the \<open>try\<close> block under \<open>except Exception\<close>, which prints and
  returns. The first component is what the callback hands back to its caller: \<open>Inr ()\<close>
  for a normal return, \<open>Inl e\<close> for an exception that leaves it.
\<close>

definition on_message_received :: "(string \<Rightarrow> json option) \<Rightarrow> arrival \<Rightarrow> subscriber \<Rightarrow>
    (exn + unit) \<times> effect list \<times> subscriber" where
  "on_message_received loads a s =
     (case message_try loads a s of
        (None, eff, s') \<Rightarrow> (Inr (), eff, s')
      | (Some e, eff, s') \<Rightarrow> (Inr (), eff @ [Log ''message processing error''], s'))"

text \<open>\<open>get_stats\<close>: the ids are the keys of the dict, which are distinct.\<close>

record stats =
  st_subscriber_id :: string
  st_client_id :: string
  st_is_connected :: bool
  st_message_count :: int
  st_processed_message_ids :: "pykey fset"

definition get_stats :: "subscriber \<Rightarrow> stats" where
  "get_stats s =
     \<lparr> st_subscriber_id = subscriber_id s,
       st_client_id = client_id s,
       st_is_connected = is_connected s,
       st_message_count = message_count s,
       st_processed_message_ids = fmdom (processed_messages s) \<rparr>"

text \<open>A sequence of arrivals, delivered one after the other.\<close>

fun deliver :: "(string \<Rightarrow> json option) \<Rightarrow> arrival list \<Rightarrow> subscriber \<Rightarrow> subscriber" where
  "deliver loads [] s = s"
| "deliver loads (a # as) s = deliver loads as (snd (snd (on_message_received loads a s)))"

text \<open>
  What the environment answers during one \<open>connect\<close>: to building the connection, to
  \<open>connect().result(timeout=10)\<close> (the session-present flag) and to
  \<open>subscribe(...).result(timeout=10)\<close> with the reading of the granted QoS.
\<close>

record connect_env =
  setup_reply :: "unit reply"
  connect_reply :: "bool reply"
  subscribe_reply :: "int reply"

definition connect_try :: "connect_env \<Rightarrow> subscriber \<Rightarrow> exn option \<times> effect list \<times> subscriber" where
  "connect_try env s =
     (case setup_reply env of
        Raises msg \<Rightarrow> (Some (TransportError msg), [MqttSetup (client_id s)], s)
      | Ok u \<Rightarrow>
          (let s1 = s\<lparr>mqtt_connection := True\<rparr>;
               eff1 = [MqttSetup (client_id s), Log ''connecting'', MqttConnect]
           in case connect_reply env of
                Raises msg \<Rightarrow> (Some (TransportError msg), eff1, s1)
              | Ok session_present \<Rightarrow>
                  (let s2 = s1\<lparr>is_connected := True\<rparr>;
                       eff2 = eff1 @ [Log ''connected'', MqttSubscribe (get_shared_topic (config s))]
                   in case subscribe_reply env of
                        Raises msg \<Rightarrow> (Some (TransportError msg), eff2, s2)
                      | Ok granted \<Rightarrow> (None, eff2 @ [Log ''subscribed''], s2))))"

text \<open>\<open>connect\<close>: \<open>True\<close> from the \<open>try\<close> block, \<open>False\<close> from the handler.\<close>

definition connect :: "connect_env \<Rightarrow> subscriber \<Rightarrow> (exn + bool) \<times> effect list \<times> subscriber" where
  "connect env s =
     (case connect_try env s of
        (None, eff, s') \<Rightarrow> (Inr True, eff, s')
      | (Some e, eff, s') \<Rightarrow> (Inr False, eff @ [Log ''connect error''], s'\<lparr>is_connected := False\<rparr>))"

text \<open>\<open>str(e)\<close> of an exception caught around a transport call.\<close>

fun exn_text :: "exn \<Rightarrow> string" where
  "exn_text (TransportError msg) = msg"
| "exn_text AttributeError = ''NoneType object has no attribute disconnect''"
| "exn_text DecodeError = ''DecodeError''"
| "exn_text TypeError = ''TypeError''"
| "exn_text ValueError = ''ValueError''"

definition disconnect_handler :: "exn \<Rightarrow> effect list" where
  "disconnect_handler e =
     (if str_contains ''NOT_CONNECTED'' (exn_text e) then [Log ''already disconnected'']
      else [Log ''disconnect error''])"

text \<open>
  The \<open>try\<close> block of \<open>disconnect\<close>: \<open>mqtt_connection.disconnect().result(timeout=10)\<close>,
  answered by \<open>r\<close>.
\<close>

definition disconnect_try :: "unit reply \<Rightarrow> subscriber \<Rightarrow> exn option \<times> effect list \<times> subscriber" where
  "disconnect_try r s =
     (case r of
        Ok u \<Rightarrow> (None, [MqttDisconnect, Log ''disconnect complete''], s\<lparr>is_connected := False\<rparr>)
      | Raises msg \<Rightarrow> (Some (TransportError msg), [MqttDisconnect], s))"

definition disconnect :: "unit reply \<Rightarrow> subscriber \<Rightarrow> (exn + unit) \<times> effect list \<times> subscriber" where
  "disconnect r s =
     (if mqtt_connection s \<and> is_connected s then
        (case disconnect_try r s of
           (None, eff, s') \<Rightarrow> (Inr (), eff, s')
         | (Some e, eff, s') \<Rightarrow> (Inr (), eff @ disconnect_handler e, s'\<lparr>is_connected := False\<rparr>))
      else if \<not> is_connected s then (Inr (), [Log ''already in disconnected state''], s)
      else (Inr (), [], s))"

text \<open>
  The connection callbacks come from the transport's own thread, at any moment.
\<close>

datatype conn_callback = CbInterrupted | CbResumed bool

fun callback :: "conn_callback \<Rightarrow> subscriber \<Rightarrow> effect list \<times> subscriber" where
  "callback CbInterrupted s = on_connection_interrupted s"
| "callback (CbResumed session_present) s = on_connection_resumed session_present s"

fun callbacks :: "conn_callback list \<Rightarrow> subscriber \<Rightarrow> effect list \<times> subscriber" where
  "callbacks [] s = ([], s)"
| "callbacks (cb # cbs) s =
     (let (eff, s1) = callback cb s; (effs, s2) = callbacks cbs s1 in (eff @ effs, s2))"

text \<open>
  The environment of one \<open>simulate_disconnect\<close>: the callbacks that land between the
  guard on entry and the second reading of \<open>is_connected\<close>, and the transport's answer to
  the disconnect.
\<close>

record sim_env =
  sim_between :: "conn_callback list"
  sim_disconnect_reply :: "unit reply"

text \<open>
  The disconnect inside \<open>simulate_disconnect\<close>, under its own \<open>try\<close>; with no connection
  object the attribute access raises, which the handler catches like any other exception.
\<close>

definition simulate_disconnect_try :: "unit reply \<Rightarrow> subscriber \<Rightarrow>
    exn option \<times> effect list \<times> subscriber" where
  "simulate_disconnect_try r s =
     (if \<not> mqtt_connection s then (Some AttributeError, [], s)
      else case r of
             Ok u \<Rightarrow> (None, [MqttDisconnect], s\<lparr>is_connected := False\<rparr>)
           | Raises msg \<Rightarrow> (Some (TransportError msg), [MqttDisconnect], s))"

definition simulate_disconnect :: "sim_env \<Rightarrow> int \<Rightarrow> subscriber \<Rightarrow> effect list \<times> subscriber" where
  "simulate_disconnect env duration s =
     (if \<not> is_connected s then ([], s)
      else
        (let s1 = s\<lparr>should_disconnect := True, disconnect_duration := duration\<rparr>;
             (eff_cb, s2) = callbacks (sim_between env) s1;
             (eff_d, s3) =
               (if is_connected s2 then
                  (case simulate_disconnect_try (sim_disconnect_reply env) s2 of
                     (None, eff, s') \<Rightarrow> (eff, s')
                   | (Some e, eff, s') \<Rightarrow> (eff @ disconnect_handler e, s'\<lparr>is_connected := False\<rparr>))
                else ([], s2))
         in ([Log ''simulated disconnect start''] @ eff_cb @ eff_d @ [ThreadStart duration], s3)))"

text \<open>
  \<open>reconnect_after_delay\<close>, the body of the thread that \<open>simulate_disconnect\<close> starts:
  it sleeps (\<open>time.sleep\<close> raises on a negative length, which ends the thread), then
  reconnects if the flag is still set.
\<close>

definition reconnect_after_delay :: "connect_env \<Rightarrow> int \<Rightarrow> subscriber \<Rightarrow>
    (exn + unit) \<times> effect list \<times> subscriber" where
  "reconnect_after_delay env duration s =
     (if duration < 0 then (Inl ValueError, [Sleep (of_int duration)], s)
      else if should_disconnect s then
        (let (r, eff, s') = connect env (s\<lparr>should_disconnect := False\<rparr>)
         in (Inr (), [Sleep (of_int duration), Log ''reconnecting''] @ eff, s'))
      else (Inr (), [Sleep (of_int duration)], s))"

section \<open>subscriber.py: MultiSubscriberManager\<close>

record manager =
  mgr_config :: aws_iot_config
  subscribers :: "subscriber list"
  running :: bool

text \<open>\<open>f"{i+1:02d}"\<close>: decimal, padded with a zero to two digits.\<close>

definition digit :: "nat \<Rightarrow> char" where
  "digit d = char_of (48 + d)"

fun decimal :: "nat \<Rightarrow> string" where
  "decimal n = (if n < 10 then [digit n] else decimal (n div 10) @ [digit (n mod 10)])"

definition two_digits :: "nat \<Rightarrow> string" where
  "two_digits n = (if n < 10 then CHR ''0'' # decimal n else decimal n)"

definition new_manager :: "aws_iot_config \<Rightarrow> nat \<Rightarrow> manager" where
  "new_manager c num_subscribers =
     \<lparr> mgr_config = c,
       subscribers = map (\<lambda>i. new_subscriber c (two_digits (i + 1))) [0..<num_subscribers],
       running = True \<rparr>"

text \<open>
  The loop of \<open>start_all\<close> over the subscribers: \<open>envs i\<close> is what the environment answers
  to the \<open>i\<close>-th subscriber's \<open>connect\<close>. It gives \<open>success_count\<close>.
\<close>

fun start_loop :: "(nat \<Rightarrow> connect_env) \<Rightarrow> nat \<Rightarrow> subscriber list \<Rightarrow>
    nat \<times> effect list \<times> subscriber list" where
  "start_loop envs i [] = (0, [], [])"
| "start_loop envs i (s # ss) =
     (let (r, eff, s') = connect (envs i) s;
          ok = (r = Inr True);
          (n, effs, ss') = start_loop envs (Suc i) ss
      in ((if ok then 1 else 0) + n, eff @ (if ok then [Sleep 1] else []) @ effs, s' # ss'))"

text \<open>\<open>start_all\<close> returns \<open>success_count > 0\<close>.\<close>

definition start_all :: "(nat \<Rightarrow> connect_env) \<Rightarrow> manager \<Rightarrow> bool \<times> effect list \<times> manager" where
  "start_all envs m =
     (let (success_count, eff, ss') = start_loop envs 0 (subscribers m)
      in (success_count > 0,
          [Log ''starting subscribers''] @ eff @ [Log ''subscribers connected''] @
            (if success_count > 0 then [Log ''all subscribers ready''] else []),
          m\<lparr>subscribers := ss'\<rparr>))"

text \<open>A Python \<open>bool\<close> read as the integer it is (\<open>True == 1\<close>).\<close>

definition int_of_bool :: "bool \<Rightarrow> int" where
  "int_of_bool b = (if b then 1 else 0)"

text \<open>
  The choice of a target in \<open>simulate_random_disconnects\<close>: the list of the connected
  subscribers (by position in the pool) and \<open>random.choice\<close> on it, whose draw is the
  parameter \<open>choice\<close>, read modulo the length of the list.
\<close>

definition connected_subscribers :: "subscriber list \<Rightarrow> nat list" where
  "connected_subscribers ss = filter (\<lambda>i. is_connected (ss ! i)) [0..<length ss]"

definition choose_target :: "nat \<Rightarrow> subscriber list \<Rightarrow> nat option" where
  "choose_target choice ss =
     (let connected = connected_subscribers ss
      in if connected = [] then None else Some (connected ! (choice mod length connected)))"

record cycle_env =
  cyc_choice :: nat
  cyc_duration :: int
  cyc_sim :: sim_env

text \<open>
  One turn of the loop of \<open>simulate_random_disconnects\<close>, from the end of its sleep:
  the second reading of \<open>running\<close>, the choice and the simulated disconnect. The result
  names the subscriber that was disconnected, if any.
\<close>

definition simulator_cycle :: "cycle_env \<Rightarrow> manager \<Rightarrow> nat option \<times> effect list \<times> manager" where
  "simulator_cycle env m =
     (if \<not> running m then (None, [], m)
      else case choose_target (cyc_choice env) (subscribers m) of
             None \<Rightarrow> (None, [], m)
           | Some i \<Rightarrow>
               (let (eff, s') = simulate_disconnect (cyc_sim env) (cyc_duration env) (subscribers m ! i)
                in (Some i, eff, m\<lparr>subscribers := (subscribers m)[i := s']\<rparr>)))"

text \<open>\<open>print_stats\<close>: the two sums and the status lines they select.\<close>

definition print_stats :: "manager \<Rightarrow> effect list" where
  "print_stats m =
     (let sts = map get_stats (subscribers m);
          total_messages = sum_list (map st_message_count sts);
          disconnected_count = length (filter (\<lambda>st. \<not> st_is_connected st) sts)
      in [Log ''subscriber statistics''] @
         (if disconnected_count > 0 then [Log ''message queuing in progress'']
          else if total_messages > 0 then [Log ''message queuing healthy'']
          else []))"

text \<open>\<open>stop_all\<close>: \<open>replies i\<close> answers the \<open>i\<close>-th subscriber's disconnect.\<close>

fun stop_loop :: "(nat \<Rightarrow> unit reply) \<Rightarrow> nat \<Rightarrow> subscriber list \<Rightarrow> effect list \<times> subscriber list" where
  "stop_loop replies i [] = ([], [])"
| "stop_loop replies i (s # ss) =
     (let (r, eff, s') = disconnect (replies i) s;
          (effs, ss') = stop_loop replies (Suc i) ss
      in (eff @ effs, s' # ss'))"

definition stop_all :: "(nat \<Rightarrow> unit reply) \<Rightarrow> manager \<Rightarrow> effect list \<times> manager" where
  "stop_all replies m =
     (let (eff, ss') = stop_loop replies 0 (subscribers m)
      in ([Log ''stopping subscribers''] @ eff, m\<lparr>subscribers := ss', running := False\<rparr>))"

section \<open>subscriber.py: the pool at run time\<close>

text \<open>
  While the pool runs, three kinds of threads work on it: the simulator, the reconnect
  threads that \<open>simulate_disconnect\<close> started and that still sleep, and the transport's
  callbacks. The state is the manager together with the sleeping reconnect threads, each
  with the position of its subscriber and its delay.
\<close>

record world =
  pool :: manager
  sleeping :: "(nat \<times> int) list"

fun thread_delays :: "effect list \<Rightarrow> int list" where
  "thread_delays [] = []"
| "thread_delays (ThreadStart d # es) = d # thread_delays es"
| "thread_delays (e # es) = thread_delays es"

text \<open>
  What can happen next: a turn of the simulator, the \<open>k\<close>-th sleeping reconnect thread
  waking up, a connection callback or an arrival at the \<open>i\<close>-th subscriber, or a turn of
  the statistics loop of \<open>main\<close>.
\<close>

datatype world_event =
    Cycle cycle_env
  | Wake nat connect_env
  | Callback nat conn_callback
  | Arrival nat arrival
  | StatsTick

fun world_step :: "(string \<Rightarrow> json option) \<Rightarrow> world_event \<Rightarrow> world \<Rightarrow> effect list \<times> world" where
  "world_step loads (Cycle env) w =
     (let (target, eff, m') = simulator_cycle env (pool w)
      in (eff,
          w\<lparr>pool := m',
            sleeping := sleeping w @
              (case target of None \<Rightarrow> [] | Some i \<Rightarrow> map (\<lambda>d. (i, d)) (thread_delays eff))\<rparr>))"
| "world_step loads (Wake k env) w =
     (if k < length (sleeping w) \<and> fst (sleeping w ! k) < length (subscribers (pool w)) then
        (let (i, d) = sleeping w ! k;
             (r, eff, s') = reconnect_after_delay env d (subscribers (pool w) ! i)
         in (eff,
             w\<lparr>pool := (pool w)\<lparr>subscribers := (subscribers (pool w))[i := s']\<rparr>,
               sleeping := take k (sleeping w) @ drop (Suc k) (sleeping w)\<rparr>))
      else ([], w))"
| "world_step loads (Callback i cb) w =
     (if i < length (subscribers (pool w)) then
        (let (eff, s') = callback cb (subscribers (pool w) ! i)
         in (eff, w\<lparr>pool := (pool w)\<lparr>subscribers := (subscribers (pool w))[i := s']\<rparr>\<rparr>))
      else ([], w))"
| "world_step loads (Arrival i a) w =
     (if i < length (subscribers (pool w)) then
        (let (r, eff, s') = on_message_received loads a (subscribers (pool w) ! i)
         in (eff, w\<lparr>pool := (pool w)\<lparr>subscribers := (subscribers (pool w))[i := s']\<rparr>\<rparr>))
      else ([], w))"
| "world_step loads StatsTick w = (Sleep 10 # print_stats (pool w), w)"

fun run_world :: "(string \<Rightarrow> json option) \<Rightarrow> world_event list \<Rightarrow> world \<Rightarrow> effect list \<times> world" where
  "run_world loads [] w = ([], w)"
| "run_world loads (ev # evs) w =
     (let (eff, w1) = world_step loads ev w; (effs, w2) = run_world loads evs w1
      in (eff @ effs, w2))"


text \<open>
  \<open>main\<close> of the subscriber: \<open>script\<close> is what happens between the start of the pool and
  the interrupt that ends the run, \<open>replies\<close> answers the disconnects of \<open>stop_all\<close>.
\<close>

definition subscriber_main :: "(string \<Rightarrow> bool) \<Rightarrow> aws_iot_config \<Rightarrow> (nat \<Rightarrow> connect_env) \<Rightarrow>
    (string \<Rightarrow> json option) \<Rightarrow> world_event list \<Rightarrow> (nat \<Rightarrow> unit reply) \<Rightarrow> effect list" where
  "subscriber_main path_exists c envs loads script replies =
     (let (eff_v, valid) = validate path_exists c
      in if \<not> valid then eff_v @ [Log ''config validation failed'']
         else
           (let (started, eff_s, m1) = start_all envs (new_manager c 3)
            in if \<not> started then
                 eff_v @ eff_s @ [Log ''failed to start subscribers''] @ fst (stop_all replies m1)
               else
                 (let (eff_r, w) = run_world loads script \<lparr>pool = m1, sleeping = []\<rparr>
                  in eff_v @ eff_s @ [Log ''queuing test running''] @ eff_r @
                     fst (stop_all replies (pool w)))))"

section \<open>publisher.py\<close>

record publisher =
  pub_config :: aws_iot_config
  pub_client_id :: string
  pub_mqtt_connection :: bool
  pub_is_connected :: bool
  publish_count :: int

definition new_publisher :: "aws_iot_config \<Rightarrow> publisher" where
  "new_publisher c =
     \<lparr> pub_config = c,
       pub_client_id = client_id_prefix c @ ''-publisher'',
       pub_mqtt_connection = False,
       pub_is_connected = False,
       publish_count = 0 \<rparr>"

text \<open>
  The publisher's callbacks: the two connection callbacks and \<open>_on_publish_complete\<close>,
  whose argument is the outcome of \<open>publish_future.result()\<close>. The count goes up only for
  a publish that was acknowledged.
\<close>

datatype pub_cb = PubInterrupted | PubResumed bool | PublishComplete "unit reply"

fun pub_callback :: "pub_cb \<Rightarrow> publisher \<Rightarrow> effect list \<times> publisher" where
  "pub_callback PubInterrupted p =
     ([Log ''connection interrupted'', Log ''waiting for automatic reconnect''],
      p\<lparr>pub_is_connected := False\<rparr>)"
| "pub_callback (PubResumed session_present) p =
     ([Log ''connection resumed''], p\<lparr>pub_is_connected := True\<rparr>)"
| "pub_callback (PublishComplete (Ok u)) p =
     ([Log ''publish complete''], p\<lparr>publish_count := publish_count p + 1\<rparr>)"
| "pub_callback (PublishComplete (Raises msg)) p = ([Log ''publish failed''], p)"

fun pub_callbacks :: "pub_cb list \<Rightarrow> publisher \<Rightarrow> effect list \<times> publisher" where
  "pub_callbacks [] p = ([], p)"
| "pub_callbacks (cb # cbs) p =
     (let (eff, p1) = pub_callback cb p; (effs, p2) = pub_callbacks cbs p1 in (eff @ effs, p2))"

definition pub_connect_try :: "unit reply \<Rightarrow> bool reply \<Rightarrow> publisher \<Rightarrow>
    exn option \<times> effect list \<times> publisher" where
  "pub_connect_try setup conn p =
     (case setup of
        Raises msg \<Rightarrow> (Some (TransportError msg), [MqttSetup (pub_client_id p)], p)
      | Ok u \<Rightarrow>
          (let p1 = p\<lparr>pub_mqtt_connection := True\<rparr>;
               eff1 = [MqttSetup (pub_client_id p), Log ''connecting'', MqttConnect]
           in case conn of
                Raises msg \<Rightarrow> (Some (TransportError msg), eff1, p1)
              | Ok session_present \<Rightarrow> (None, eff1 @ [Log ''connected''], p1\<lparr>pub_is_connected := True\<rparr>)))"

definition pub_connect :: "unit reply \<Rightarrow> bool reply \<Rightarrow> publisher \<Rightarrow>
    (exn + bool) \<times> effect list \<times> publisher" where
  "pub_connect setup conn p =
     (case pub_connect_try setup conn p of
        (None, eff, p') \<Rightarrow> (Inr True, eff, p')
      | (Some e, eff, p') \<Rightarrow> (Inr False, eff @ [Log ''connect error''], p'\<lparr>pub_is_connected := False\<rparr>))"

text \<open>
  The environment of one \<open>publish_test_message\<close>: the draw of \<open>uuid.uuid4()\<close>, the clock,
  and the transport's answer to \<open>publish\<close> (the packet id).
\<close>

record publish_env =
  uuid4 :: string
  pub_now :: string
  publish_reply :: "int reply"

definition test_message :: "string \<Rightarrow> string \<Rightarrow> publisher \<Rightarrow> json" where
  "test_message message_id now p =
     JObj [(''message_id'', JStr message_id),
           (''timestamp'', JStr now),
           (''sender'', JStr (pub_client_id p)),
           (''data'', JObj [(''temperature'', JFloat (FVal (51 / 2))),
                            (''humidity'', JFloat (FVal 60)),
                            (''status'', JStr ''normal'')]),
           (''sequence'', JInt (publish_count p + 1))]"

definition publish_try :: "publish_env \<Rightarrow> json \<Rightarrow> publisher \<Rightarrow> exn option \<times> effect list \<times> publisher" where
  "publish_try env message p =
     (case publish_reply env of
        Ok packet_id \<Rightarrow>
          (None, [MqttPublish (get_publish_topic (pub_config p)) message, Log ''message sent''], p)
      | Raises msg \<Rightarrow>
          (Some (TransportError msg), [MqttPublish (get_publish_topic (pub_config p)) message], p))"

definition publish_test_message :: "publish_env \<Rightarrow> string option \<Rightarrow> publisher \<Rightarrow>
    (exn + bool) \<times> effect list \<times> publisher" where
  "publish_test_message env message_id p =
     (if \<not> pub_is_connected p \<or> \<not> pub_mqtt_connection p then
        (Inr False, [Log ''not connected, skipping message''], p)
      else
        (let mid = (case message_id of None \<Rightarrow> uuid4 env | Some given \<Rightarrow> given);
             message = test_message mid (pub_now env) p
         in case publish_try env message p of
              (None, eff, p') \<Rightarrow> (Inr True, eff, p')
            | (Some e, eff, p') \<Rightarrow> (Inr False, eff @ [Log ''send error''], p')))"

text \<open>
  The environment of one turn of the publishing loop: the callbacks that land between the
  loop's reading of \<open>is_connected\<close> and the one inside \<open>publish_test_message\<close>, the
  environment of the publish, and the callbacks that land while the loop sleeps.
\<close>

record tick_env =
  tick_between :: "pub_cb list"
  tick_publish :: publish_env
  tick_sleep :: "pub_cb list"

text \<open>
  The \<open>for\<close> loop of \<open>start_continuous_publishing\<close>, with the index \<open>i\<close> of the turn and
  the number of turns left. \<open>time.sleep\<close> raises on a negative interval, and nothing in
  the method catches it.
\<close>

fun publishing_loop :: "(nat \<Rightarrow> tick_env) \<Rightarrow> rat \<Rightarrow> nat \<Rightarrow> nat \<Rightarrow> publisher \<Rightarrow>
    (exn + unit) \<times> effect list \<times> publisher" where
  "publishing_loop envs interval i 0 p = (Inr (), [], p)"
| "publishing_loop envs interval i (Suc n) p =
     (if \<not> pub_is_connected p then (Inr (), [Log ''connection lost, stopping''], p)
      else
        (let (eff_b, p1) = pub_callbacks (tick_between (envs i)) p;
             (success, eff_p, p2) = publish_test_message (tick_publish (envs i)) None p1;
             eff_t = eff_b @ eff_p @ (if success = Inr True then [Log ''progress''] else []) @
                     [Sleep interval]
         in if interval < 0 then (Inl ValueError, eff_t, p2)
            else
              (let (eff_s, p3) = pub_callbacks (tick_sleep (envs i)) p2;
                   (r, effs, p') = publishing_loop envs interval (Suc i) n p3
               in (r, eff_t @ eff_s @ effs, p'))))"

definition start_continuous_publishing :: "(nat \<Rightarrow> tick_env) \<Rightarrow> rat \<Rightarrow> int \<Rightarrow> publisher \<Rightarrow>
    (exn + unit) \<times> effect list \<times> publisher" where
  "start_continuous_publishing envs interval max_messages p =
     (let (r, eff, p') = publishing_loop envs interval 0 (nat max_messages) p
      in case r of
           Inl e \<Rightarrow> (Inl e, [Log ''continuous publishing start''] @ eff, p')
         | Inr u \<Rightarrow>
             (Inr (), [Log ''continuous publishing start''] @ eff @
                      [Log ''continuous publishing done'', Log ''summary''], p'))"

definition pub_disconnect_try :: "unit reply \<Rightarrow> publisher \<Rightarrow> exn option \<times> effect list \<times> publisher" where
  "pub_disconnect_try r p =
     (case r of
        Ok u \<Rightarrow> (None, [MqttDisconnect, Log ''disconnect complete''], p\<lparr>pub_is_connected := False\<rparr>)
      | Raises msg \<Rightarrow> (Some (TransportError msg), [MqttDisconnect], p))"

definition pub_disconnect :: "unit reply \<Rightarrow> publisher \<Rightarrow> (exn + unit) \<times> effect list \<times> publisher" where
  "pub_disconnect r p =
     (if pub_mqtt_connection p \<and> pub_is_connected p then
        (case pub_disconnect_try r p of
           (None, eff, p') \<Rightarrow> (Inr (), eff, p')
         | (Some e, eff, p') \<Rightarrow> (Inr (), eff @ disconnect_handler e, p'\<lparr>pub_is_connected := False\<rparr>))
      else if \<not> pub_is_connected p then (Inr (), [Log ''already in disconnected state''], p)
      else (Inr (), [], p))"

text \<open>
  \<open>main\<close> of the publisher, run to its end without an interrupt: \<open>tail\<close> holds the
  callbacks that land during the last five seconds' wait.
\<close>

definition publisher_main :: "(string \<Rightarrow> bool) \<Rightarrow> aws_iot_config \<Rightarrow> unit reply \<Rightarrow> bool reply \<Rightarrow>
    (nat \<Rightarrow> tick_env) \<Rightarrow> pub_cb list \<Rightarrow> unit reply \<Rightarrow> effect list" where
  "publisher_main path_exists c setup conn envs tail r =
     (let (eff_v, valid) = validate path_exists c
      in if \<not> valid then eff_v @ [Log ''config validation failed'']
         else
           (let (connected, eff_c, p1) = pub_connect setup conn (new_publisher c)
            in if connected \<noteq> Inr True then
                 eff_v @ eff_c @ [Log ''connect failed''] @ fst (snd (pub_disconnect r p1))
               else
                 (let (res, eff_l, p2) = start_continuous_publishing envs 1 20 p1
                  in case res of
                       Inl e \<Rightarrow>
                         eff_v @ eff_c @ [Log ''queuing test start''] @ eff_l @
                         fst (snd (pub_disconnect r p2))
                     | Inr u \<Rightarrow>
                         (let (eff_w, p3) = pub_callbacks tail p2
                          in eff_v @ eff_c @ [Log ''queuing test start''] @ eff_l @ [Sleep 5] @
                             eff_w @ fst (snd (pub_disconnect r p3))))))"

text \<open>Reading a trace: the transport calls, the turns of a loop, the published messages.\<close>

fun is_transport :: "effect \<Rightarrow> bool" where
  "is_transport (MqttSetup cid) = True"
| "is_transport MqttConnect = True"
| "is_transport (MqttSubscribe tp) = True"
| "is_transport (MqttPublish tp msg) = True"
| "is_transport MqttDisconnect = True"
| "is_transport e = False"






section \<open>Runs of one subscriber, and the examples' fixtures\<close>

text \<open>
  Everything that can be done to a subscriber object: an arrival, a connection callback,
  and the calls of its methods, each with the environment's answers.
\<close>

datatype sub_event =
    EvArrival arrival
  | EvCallback conn_callback
  | EvConnect connect_env
  | EvDisconnect "unit reply"
  | EvSimulateDisconnect sim_env int
  | EvReconnect connect_env int

fun sub_step :: "(string \<Rightarrow> json option) \<Rightarrow> sub_event \<Rightarrow> subscriber \<Rightarrow> subscriber" where
  "sub_step loads (EvArrival a) s = snd (snd (on_message_received loads a s))"
| "sub_step loads (EvCallback cb) s = snd (callback cb s)"
| "sub_step loads (EvConnect env) s = snd (snd (connect env s))"
| "sub_step loads (EvDisconnect r) s = snd (snd (disconnect r s))"
| "sub_step loads (EvSimulateDisconnect env duration) s = snd (simulate_disconnect env duration s)"
| "sub_step loads (EvReconnect env duration) s = snd (snd (reconnect_after_delay env duration s))"

fun run_subscriber :: "(string \<Rightarrow> json option) \<Rightarrow> sub_event list \<Rightarrow> subscriber \<Rightarrow> subscriber" where
  "run_subscriber loads [] s = s"
| "run_subscriber loads (ev # evs) s = run_subscriber loads evs (sub_step loads ev s)"

definition tracker_inv :: "subscriber \<Rightarrow> bool" where
  "tracker_inv s = (int (fcard (fmdom (processed_messages s))) \<le> message_count s)"

text \<open>The entry that an arrival with the decoded payload \<open>message_data\<close> writes.\<close>

definition entry_of :: "arrival \<Rightarrow> json \<Rightarrow> received" where
  "entry_of a message_data =
     \<lparr> received_at = arr_now a, topic = arr_topic a, qos = qos_value (arr_qos a),
       data = message_data \<rparr>"

text \<open>An arrival whose payload decodes to an object with no \<open>message_id\<close> field.\<close>

definition lacks_message_id :: "(string \<Rightarrow> json option) \<Rightarrow> arrival \<Rightarrow> bool" where
  "lacks_message_id loads a =
     (case loads (arr_payload a) of
        Some (JObj kvs) \<Rightarrow> map_of kvs ''message_id'' = None
      | other \<Rightarrow> False)"

text \<open>A decoded payload that is a dict; every other JSON value has no \<open>get\<close>.\<close>

fun is_object :: "json \<Rightarrow> bool" where
  "is_object (JObj kvs) = True"
| "is_object other = False"

text \<open>
  Fixtures for the examples: a configuration, payloads, and a decoder that answers on
  these payloads as \<open>json.loads\<close> does (an empty object, an empty array, an object with a
  \<open>message_id\<close>; anything else used below is not JSON).
\<close>

definition quoted :: "string \<Rightarrow> string" where
  "quoted s = CHR 0x22 # s @ [CHR 0x22]"

definition id_payload :: "string \<Rightarrow> string" where
  "id_payload m = ''{'' @ quoted ''message_id'' @ '': '' @ quoted m @ ''}''"

definition sample_loads :: "string \<Rightarrow> json option" where
  "sample_loads payload =
     (if payload = ''{}'' then Some (JObj [])
      else if payload = ''[]'' then Some (JArr [])
      else if payload = id_payload ''m1'' then Some (JObj [(''message_id'', JStr ''m1'')])
      else if payload = id_payload ''m2'' then Some (JObj [(''message_id'', JStr ''m2'')])
      else None)"

definition sample_config :: aws_iot_config where
  "sample_config =
     \<lparr> endpoint = ''example.iot.amazonaws.com'',
       root_ca_path = ''certs/AmazonRootCA1.pem'',
       cert_path = ''certs/device.pem.crt'',
       private_key_path = ''certs/private.pem.key'',
       client_id_prefix = ''message-queuing-test'',
       topic_prefix = ''test/shared'',
       shared_subscription_group = ''message-queuing-group'' \<rparr>"

definition sample_arrival :: "string \<Rightarrow> arrival" where
  "sample_arrival payload =
     \<lparr> arr_topic = ''test/shared/messages'', arr_payload = payload,
       arr_qos = QoSMember 1, arr_now = ''2024-01-01T00:00:00'' \<rparr>"

definition connected_subscriber :: subscriber where
  "connected_subscriber =
     (new_subscriber sample_config ''01'')\<lparr>mqtt_connection := True, is_connected := True\<rparr>"

definition connected_publisher :: publisher where
  "connected_publisher =
     (new_publisher sample_config)\<lparr>pub_mqtt_connection := True, pub_is_connected := True\<rparr>"

definition ok_connect :: connect_env where
  "ok_connect = \<lparr> setup_reply = Ok (), connect_reply = Ok True, subscribe_reply = Ok 1 \<rparr>"

definition sample_publish :: publish_env where
  "sample_publish =
     \<lparr> uuid4 = ''123e4567-e89b-42d3-a456-426614174000'',
       pub_now = ''2024-01-01T00:00:00'', publish_reply = Ok 1 \<rparr>"

text \<open>A turn of the publishing loop with the given callbacks before the publish and during the sleep.\<close>

definition tick :: "pub_cb list \<Rightarrow> pub_cb list \<Rightarrow> tick_env" where
  "tick between during =
     \<lparr> tick_between = between, tick_publish = sample_publish, tick_sleep = during \<rparr>"





section \<open>Notions the properties are stated with\<close>






section \<open>The message tracker\<close>

lemma on_message_received_inv:
  "tracker_inv s \<Longrightarrow> tracker_inv (snd (snd (on_message_received loads a s)))"
  by (auto simp: on_message_received_def message_try_def tracker_inv_def Let_def fcard_finsert_if
      split: option.splits sum.splits)

lemma deliver_inv: "tracker_inv s \<Longrightarrow> tracker_inv (deliver loads as s)"
  by (induction as arbitrary: s) (auto simp: on_message_received_inv)

text \<open>No other operation touches the counter or the dict.\<close>

lemma callback_tracker:
  "message_count (snd (callback cb s)) = message_count s \<and>
   processed_messages (snd (callback cb s)) = processed_messages s"
  by (cases cb) (simp_all add: on_connection_interrupted_def on_connection_resumed_def)

lemma callbacks_tracker:
  "message_count (snd (callbacks cbs s)) = message_count s \<and>
   processed_messages (snd (callbacks cbs s)) = processed_messages s"
proof (induction cbs arbitrary: s)
  case Nil
  show ?case by simp
next
  case (Cons cb cbs)
  show ?case
    using Cons.IH[of "snd (callback cb s)"] callback_tracker[of cb s]
    by (simp add: split_beta Let_def)
qed

lemma connect_tracker:
  "message_count (snd (snd (connect env s))) = message_count s \<and>
   processed_messages (snd (snd (connect env s))) = processed_messages s"
  by (simp add: connect_def connect_try_def Let_def split: reply.splits)

lemma disconnect_tracker:
  "message_count (snd (snd (disconnect r s))) = message_count s \<and>
   processed_messages (snd (snd (disconnect r s))) = processed_messages s"
  by (simp add: disconnect_def disconnect_try_def split: reply.splits)

lemma simulate_disconnect_tracker:
  "message_count (snd (simulate_disconnect env d s)) = message_count s \<and>
   processed_messages (snd (simulate_disconnect env d s)) = processed_messages s"
  using callbacks_tracker[of "sim_between env"
      "s\<lparr>should_disconnect := True, disconnect_duration := d\<rparr>"]
  by (simp add: simulate_disconnect_def simulate_disconnect_try_def Let_def split_beta
      split: reply.splits)

lemma reconnect_tracker:
  "message_count (snd (snd (reconnect_after_delay env d s))) = message_count s \<and>
   processed_messages (snd (snd (reconnect_after_delay env d s))) = processed_messages s"
  using connect_tracker[of env "s\<lparr>should_disconnect := False\<rparr>"]
  by (simp add: reconnect_after_delay_def split_beta)

lemma sub_step_inv:
  assumes "tracker_inv s"
  shows "tracker_inv (sub_step loads ev s)"
proof (cases ev)
  case (EvArrival a)
  then show ?thesis using assms by (simp add: on_message_received_inv)
next
  case (EvCallback cb)
  then show ?thesis using assms callback_tracker[of cb s] by (simp add: tracker_inv_def)
next
  case (EvConnect env)
  then show ?thesis using assms connect_tracker[of env s] by (simp add: tracker_inv_def)
next
  case (EvDisconnect r)
  then show ?thesis using assms disconnect_tracker[of r s] by (simp add: tracker_inv_def)
next
  case (EvSimulateDisconnect env d)
  then show ?thesis
    using assms simulate_disconnect_tracker[of env d s] by (simp add: tracker_inv_def)
next
  case (EvReconnect env d)
  then show ?thesis
    using assms reconnect_tracker[of env d s] by (simp add: tracker_inv_def)
qed

lemma run_subscriber_inv: "tracker_inv s \<Longrightarrow> tracker_inv (run_subscriber loads evs s)"
  by (induction evs arbitrary: s) (auto simp: sub_step_inv)

lemma new_subscriber_inv: "tracker_inv (new_subscriber c sid)"
  by (simp add: tracker_inv_def new_subscriber_def)

text \<open>
  C1. Take any subscriber: a fresh one after any sequence of arrivals, callbacks and method
  calls. After any further sequence of arrivals, the statistics it reports have a message
  count that is at least the number of distinct message ids. (An arrival that fails before
  the increment changes neither number; one whose id cannot be hashed raises the count
  alone.)
\<close>

theorem tracker_count_bounds_distinct_ids:
  "int (fcard (st_processed_message_ids
          (get_stats (deliver loads as (run_subscriber loads evs (new_subscriber c sid))))))
   \<le> st_message_count
        (get_stats (deliver loads as (run_subscriber loads evs (new_subscriber c sid))))"
  using deliver_inv[OF run_subscriber_inv[OF new_subscriber_inv], of loads as loads evs c sid]
  by (simp add: tracker_inv_def get_stats_def)

text \<open>
  C2. Two arrivals in a row whose payloads decode to objects with the same message id
  (the same key for the dict): the count goes up by one each time, and after the second
  the dict has the keys, and so the number of keys, that it had after the first; the
  entry under the key is the one of the second arrival. (With an id that cannot be
  hashed, neither arrival writes the dict.)
\<close>

theorem redelivery_overwrites_record:
  assumes "loads (arr_payload a1) = Some d1"
      and "loads (arr_payload a2) = Some d2"
      and "dict_get d1 ''message_id'' (JStr ''unknown'') = Inr m1"
      and "dict_get d2 ''message_id'' (JStr ''unknown'') = Inr m2"
      and "hash_key m1 = hash_key m2"
  shows "message_count (deliver loads [a1] s) = message_count s + 1
       \<and> message_count (deliver loads [a1, a2] s) = message_count s + 2
       \<and> fmdom (processed_messages (deliver loads [a1, a2] s)) =
           fmdom (processed_messages (deliver loads [a1] s))
       \<and> fcard (fmdom (processed_messages (deliver loads [a1, a2] s))) =
           fcard (fmdom (processed_messages (deliver loads [a1] s)))
       \<and> (case hash_key m2 of
            None \<Rightarrow> processed_messages (deliver loads [a1, a2] s) = processed_messages s
          | Some k \<Rightarrow>
              fmlookup (processed_messages (deliver loads [a1, a2] s)) k = Some (entry_of a2 d2))"
  using assms
  by (simp add: on_message_received_def message_try_def Let_def entry_of_def split: option.splits)

theorem redelivery_overwrites_record_witness:
  "sample_loads (arr_payload (sample_arrival (id_payload ''m1''))) =
     Some (JObj [(''message_id'', JStr ''m1'')])
   \<and> dict_get (JObj [(''message_id'', JStr ''m1'')]) ''message_id'' (JStr ''unknown'') =
       Inr (JStr ''m1'')
   \<and> message_count
       (deliver sample_loads [sample_arrival (id_payload ''m1''), sample_arrival (id_payload ''m1'')]
          (new_subscriber sample_config ''01'')) = 2
   \<and> fcard (fmdom (processed_messages
       (deliver sample_loads [sample_arrival (id_payload ''m1''), sample_arrival (id_payload ''m1'')]
          (new_subscriber sample_config ''01'')))) = 1
   \<and> fcard (fmdom (processed_messages
       (deliver sample_loads [sample_arrival (id_payload ''m1'')]
          (new_subscriber sample_config ''01'')))) = 1"
proof -
  let ?a = "sample_arrival (id_payload ''m1'')"
  let ?d = "JObj [(''message_id'', JStr ''m1'')]"
  have h1: "sample_loads (arr_payload ?a) = Some ?d"
    by (simp add: sample_loads_def sample_arrival_def id_payload_def quoted_def)
  have h2: "dict_get ?d ''message_id'' (JStr ''unknown'') = Inr (JStr ''m1'')"
    by simp
  have h3: "fcard (fmdom (processed_messages
         (deliver sample_loads [?a] (new_subscriber sample_config ''01'')))) = 1"
    using h1
    by (simp add: on_message_received_def message_try_def new_subscriber_def fcard_finsert_if)
  show ?thesis
    using h1 h2 h3
      redelivery_overwrites_record[of sample_loads ?a ?d ?a ?d "JStr ''m1''" "JStr ''m1''"
        "new_subscriber sample_config ''01''"]
    by (simp add: new_subscriber_def)
qed

text \<open>
  C9. An arrival whose payload cannot be decoded: the callback returns normally, having
  printed the error, and the subscriber is exactly as it was, counter and dict included.
\<close>

theorem undecodable_payload_leaves_tracker:
  "loads (arr_payload a) = None \<Longrightarrow>
     on_message_received loads a s = (Inr (), [Log ''message processing error''], s)"
  by (simp add: on_message_received_def message_try_def)

theorem undecodable_payload_leaves_tracker_witness:
  "sample_loads (arr_payload (sample_arrival ''not json'')) = None \<and>
   on_message_received sample_loads (sample_arrival ''not json'')
       (new_subscriber sample_config ''01'')
     = (Inr (), [Log ''message processing error''], new_subscriber sample_config ''01'')"
proof -
  have h: "sample_loads (arr_payload (sample_arrival ''not json'')) = None"
    by (simp add: sample_loads_def sample_arrival_def id_payload_def quoted_def)
  show ?thesis
    using h undecodable_payload_leaves_tracker[of sample_loads "sample_arrival ''not json''"
        "new_subscriber sample_config ''01''"]
    by simp
qed

lemma lacks_message_id_step:
  assumes "lacks_message_id loads a"
  shows "message_count (snd (snd (on_message_received loads a s))) = message_count s + 1"
    and "fmdom (processed_messages (snd (snd (on_message_received loads a s)))) =
           finsert (KStr ''unknown'') (fmdom (processed_messages s))"
  using assms
  by (auto simp: lacks_message_id_def on_message_received_def message_try_def Let_def
      split: option.splits json.splits)

lemma lacks_message_id_deliver:
  "list_all (lacks_message_id loads) as \<Longrightarrow>
     message_count (deliver loads as s) = message_count s + int (length as) \<and>
     fmdom (processed_messages (deliver loads as s)) =
       (if as = [] then fmdom (processed_messages s)
        else finsert (KStr ''unknown'') (fmdom (processed_messages s)))"
proof (induction as arbitrary: s)
  case Nil
  show ?case by simp
next
  case (Cons a as)
  from Cons.prems have a: "lacks_message_id loads a" and as: "list_all (lacks_message_id loads) as"
    by simp_all
  show ?case
    using Cons.IH[OF as, of "snd (snd (on_message_received loads a s))"]
      lacks_message_id_step[OF a, of s]
    by simp
qed

lemma non_object_unchanged:
  assumes "loads (arr_payload b) = Some v" and "\<not> is_object v"
  shows "on_message_received loads b s = (Inr (), [Log ''message processing error''], s)"
  using assms
  by (cases v) (simp_all add: on_message_received_def message_try_def)

text \<open>
  C10, as the code has it. Arrivals whose payloads decode to JSON objects without a
  \<open>message_id\<close> field: each raises the count by one, and all of them together add the
  one key \<open>"unknown"\<close> to the dict, so at most one entry. An arrival whose payload decodes
  to any other JSON value (an array, a number, a string, a boolean, null) has no
  \<open>message_id\<close> either, but \<open>get\<close> raises on it before the increment: the callback prints
  the error and returns, and the subscriber is as it was, neither counted nor filed under
  \<open>"unknown"\<close>.
\<close>

theorem missing_message_id_collapses_to_unknown:
  assumes "list_all (lacks_message_id loads) as"
      and "loads (arr_payload b) = Some v" and "\<not> is_object v"
  shows "message_count (deliver loads as s) = message_count s + int (length as)
       \<and> fmdom (processed_messages (deliver loads as s)) =
           (if as = [] then fmdom (processed_messages s)
            else finsert (KStr ''unknown'') (fmdom (processed_messages s)))
       \<and> fcard (fmdom (processed_messages (deliver loads as s)))
           \<le> fcard (fmdom (processed_messages s)) + 1
       \<and> on_message_received loads b sb = (Inr (), [Log ''message processing error''], sb)"
  using lacks_message_id_deliver[OF assms(1), of s]
    non_object_unchanged[of loads b v sb] assms(2) assms(3)
  by (simp add: fcard_finsert_if)

theorem missing_message_id_collapses_to_unknown_witness:
  "list_all (lacks_message_id sample_loads)
     [sample_arrival ''{}'', sample_arrival ''{}'', sample_arrival ''{}'']
   \<and> sample_loads (arr_payload (sample_arrival ''[]'')) = Some (JArr [])
   \<and> \<not> is_object (JArr [])
   \<and> message_count
       (deliver sample_loads [sample_arrival ''{}'', sample_arrival ''{}'', sample_arrival ''{}'']
          (new_subscriber sample_config ''01'')) = 3
   \<and> fmdom (processed_messages
       (deliver sample_loads [sample_arrival ''{}'', sample_arrival ''{}'', sample_arrival ''{}'']
          (new_subscriber sample_config ''01''))) = {|KStr ''unknown''|}
   \<and> on_message_received sample_loads (sample_arrival ''[]'')
         (new_subscriber sample_config ''01'')
       = (Inr (), [Log ''message processing error''], new_subscriber sample_config ''01'')"
proof -
  let ?as = "[sample_arrival ''{}'', sample_arrival ''{}'', sample_arrival ''{}'']"
  have h1: "list_all (lacks_message_id sample_loads) ?as"
    by (simp add: lacks_message_id_def sample_loads_def sample_arrival_def)
  have h2: "sample_loads (arr_payload (sample_arrival ''[]'')) = Some (JArr [])"
    by (simp add: sample_loads_def sample_arrival_def)
  have h3: "\<not> is_object (JArr [])" by simp
  show ?thesis
    using h1 h2 h3
      missing_message_id_collapses_to_unknown[of sample_loads ?as "sample_arrival ''[]''"
        "JArr []" "new_subscriber sample_config ''01''" "new_subscriber sample_config ''01''"]
    by (simp add: new_subscriber_def)
qed

text \<open>
  C10 as stated fails. The payload \<open>[]\<close> is JSON and has no \<open>message_id\<close> field; \<open>get\<close>
  raises on the list, and after the arrival the count of a fresh subscriber is still 0
  and its dict still empty: nothing is recorded under \<open>"unknown"\<close>.
\<close>

theorem non_object_payload_is_not_counted:
  "sample_loads (arr_payload (sample_arrival ''[]'')) = Some (JArr [])
   \<and> dict_get (JArr []) ''message_id'' (JStr ''unknown'') = Inl AttributeError
   \<and> message_count (deliver sample_loads [sample_arrival ''[]'']
        (new_subscriber sample_config ''01'')) = 0
   \<and> processed_messages (deliver sample_loads [sample_arrival ''[]'']
        (new_subscriber sample_config ''01'')) = fmempty"
  by (simp add: sample_loads_def sample_arrival_def on_message_received_def message_try_def
      new_subscriber_def)

section \<open>disconnect\<close>

lemma disconnect_returns: "fst (disconnect r s) = Inr ()"
  by (simp add: disconnect_def disconnect_try_def split: reply.splits)

lemma pub_disconnect_returns: "fst (pub_disconnect r p) = Inr ()"
  by (simp add: pub_disconnect_def pub_disconnect_try_def split: reply.splits)

lemma disconnect_twice_quiet:
  "filter is_transport (fst (snd (disconnect rb (snd (snd (disconnect ra s)))))) = []"
  by (simp add: disconnect_def disconnect_try_def disconnect_handler_def split: reply.splits)

lemma pub_disconnect_twice_quiet:
  "filter is_transport (fst (snd (pub_disconnect rb (snd (snd (pub_disconnect ra p)))))) = []"
  by (simp add: pub_disconnect_def pub_disconnect_try_def disconnect_handler_def
      split: reply.splits)

text \<open>
  C3. For the subscriber and for the publisher alike: \<open>disconnect\<close> on a manager whose
  \<open>is_connected\<close> is false returns at once, with no call on the transport and the object
  unchanged; two calls in a row, whatever the transport answers, both return normally
  and the second makes no call on the transport; an exception whose text contains
  \<open>NOT_CONNECTED\<close> is caught, reported as "already disconnected", and leaves
  \<open>is_connected\<close> false, as does every other answer of the transport.
\<close>

theorem disconnect_idempotent:
  assumes "\<not> is_connected sa" and "\<not> pub_is_connected pa"
      and "str_contains ''NOT_CONNECTED'' msg"
      and "mqtt_connection sb \<and> is_connected sb"
      and "pub_mqtt_connection pb \<and> pub_is_connected pb"
  shows "disconnect r sa = (Inr (), [Log ''already in disconnected state''], sa)
       \<and> pub_disconnect r pa = (Inr (), [Log ''already in disconnected state''], pa)
       \<and> fst (disconnect ra s) = Inr ()
       \<and> fst (disconnect rb (snd (snd (disconnect ra s)))) = Inr ()
       \<and> filter is_transport (fst (snd (disconnect rb (snd (snd (disconnect ra s)))))) = []
       \<and> fst (pub_disconnect ra p) = Inr ()
       \<and> fst (pub_disconnect rb (snd (snd (pub_disconnect ra p)))) = Inr ()
       \<and> filter is_transport
            (fst (snd (pub_disconnect rb (snd (snd (pub_disconnect ra p)))))) = []
       \<and> disconnect (Raises msg) sb =
           (Inr (), [MqttDisconnect, Log ''already disconnected''], sb\<lparr>is_connected := False\<rparr>)
       \<and> pub_disconnect (Raises msg) pb =
           (Inr (), [MqttDisconnect, Log ''already disconnected''],
            pb\<lparr>pub_is_connected := False\<rparr>)
       \<and> \<not> is_connected (snd (snd (disconnect r sb)))
       \<and> \<not> pub_is_connected (snd (snd (pub_disconnect r pb)))"
proof -
  have a: "disconnect r sa = (Inr (), [Log ''already in disconnected state''], sa)"
    using assms(1) by (simp add: disconnect_def)
  have b: "pub_disconnect r pa = (Inr (), [Log ''already in disconnected state''], pa)"
    using assms(2) by (simp add: pub_disconnect_def)
  have c: "disconnect (Raises msg) sb =
           (Inr (), [MqttDisconnect, Log ''already disconnected''], sb\<lparr>is_connected := False\<rparr>)"
    using assms(3,4) by (simp add: disconnect_def disconnect_try_def disconnect_handler_def)
  have d: "pub_disconnect (Raises msg) pb =
           (Inr (), [MqttDisconnect, Log ''already disconnected''],
            pb\<lparr>pub_is_connected := False\<rparr>)"
    using assms(3,5)
    by (simp add: pub_disconnect_def pub_disconnect_try_def disconnect_handler_def)
  have e: "\<not> is_connected (snd (snd (disconnect r sb)))"
    using assms(4) by (simp add: disconnect_def disconnect_try_def split: reply.splits)
  have f: "\<not> pub_is_connected (snd (snd (pub_disconnect r pb)))"
    using assms(5) by (simp add: pub_disconnect_def pub_disconnect_try_def split: reply.splits)
  show ?thesis
    using a b c d e f disconnect_returns pub_disconnect_returns
      disconnect_twice_quiet pub_disconnect_twice_quiet
    by simp
qed

theorem disconnect_idempotent_witness:
  "\<not> is_connected (new_subscriber sample_config ''01'')
   \<and> \<not> pub_is_connected (new_publisher sample_config)
   \<and> str_contains ''NOT_CONNECTED'' ''AWS_ERROR_MQTT_NOT_CONNECTED''
   \<and> mqtt_connection connected_subscriber \<and> is_connected connected_subscriber
   \<and> pub_mqtt_connection connected_publisher \<and> pub_is_connected connected_publisher
   \<and> disconnect (Ok ()) (new_subscriber sample_config ''01'') =
       (Inr (), [Log ''already in disconnected state''], new_subscriber sample_config ''01'')
   \<and> disconnect (Raises ''AWS_ERROR_MQTT_NOT_CONNECTED'') connected_subscriber =
       (Inr (), [MqttDisconnect, Log ''already disconnected''],
        connected_subscriber\<lparr>is_connected := False\<rparr>)
   \<and> pub_disconnect (Raises ''AWS_ERROR_MQTT_NOT_CONNECTED'') connected_publisher =
       (Inr (), [MqttDisconnect, Log ''already disconnected''],
        connected_publisher\<lparr>pub_is_connected := False\<rparr>)
   \<and> fst (snd (disconnect (Ok ()) (snd (snd (disconnect (Ok ()) connected_subscriber))))) =
       [Log ''already in disconnected state'']"
proof -
  have h1: "\<not> is_connected (new_subscriber sample_config ''01'')"
    by (simp add: new_subscriber_def)
  have h2: "\<not> pub_is_connected (new_publisher sample_config)"
    by (simp add: new_publisher_def)
  have h3: "str_contains ''NOT_CONNECTED'' ''AWS_ERROR_MQTT_NOT_CONNECTED''"
    by simp
  have h4: "mqtt_connection connected_subscriber \<and> is_connected connected_subscriber"
    by (simp add: connected_subscriber_def)
  have h5: "pub_mqtt_connection connected_publisher \<and> pub_is_connected connected_publisher"
    by (simp add: connected_publisher_def)
  have h6: "fst (snd (disconnect (Ok ()) (snd (snd (disconnect (Ok ()) connected_subscriber))))) =
       [Log ''already in disconnected state'']"
    by (simp add: disconnect_def disconnect_try_def connected_subscriber_def)
  show ?thesis
    using h1 h2 h3 h4 h5 h6
      disconnect_idempotent[OF h1 h2 h3 h4 h5, where r = "Ok ()" and ra = "Ok ()"
        and rb = "Ok ()" and s = connected_subscriber and p = connected_publisher]
    by simp
qed

section \<open>validate and the entry points\<close>

lemma validate_iff:
  "snd (validate path_exists c) =
     (path_exists (root_ca_path c) \<and> path_exists (cert_path c) \<and>
      path_exists (private_key_path c))"
  by (simp add: validate_def)

lemma validate_quiet: "filter is_transport (fst (validate path_exists c)) = []"
  by (simp add: validate_def)

text \<open>
  C8. \<open>validate\<close> returns true exactly when the root CA file, the certificate file and the
  private key file all exist. When it returns false, \<open>main\<close> of the subscriber and \<open>main\<close>
  of the publisher print the failure and return: their traces hold the lines of
  \<open>validate\<close> and the failure line, and no call on the transport.
\<close>

theorem validate_gates_entry_points:
  "snd (validate path_exists c) =
     (path_exists (root_ca_path c) \<and> path_exists (cert_path c) \<and>
      path_exists (private_key_path c))
   \<and> (\<not> snd (validate path_exists c) \<longrightarrow>
        subscriber_main path_exists c envs loads script replies =
          fst (validate path_exists c) @ [Log ''config validation failed'']
      \<and> filter is_transport (subscriber_main path_exists c envs loads script replies) = []
      \<and> publisher_main path_exists c setup conn tenvs tail r =
          fst (validate path_exists c) @ [Log ''config validation failed'']
      \<and> filter is_transport (publisher_main path_exists c setup conn tenvs tail r) = [])"
  using validate_iff[of path_exists c] validate_quiet[of path_exists c]
  by (simp add: subscriber_main_def publisher_main_def split_beta)

theorem validate_gates_entry_points_witness:
  "\<not> snd (validate (\<lambda>f. f \<noteq> ''certs/private.pem.key'') sample_config)
   \<and> subscriber_main (\<lambda>f. f \<noteq> ''certs/private.pem.key'') sample_config (\<lambda>i. ok_connect)
        sample_loads [] (\<lambda>i. Ok ()) =
       [Log ''certificate file not found: certs/private.pem.key'', Log ''config validation failed'']
   \<and> publisher_main (\<lambda>f. f \<noteq> ''certs/private.pem.key'') sample_config (Ok ()) (Ok True)
        (\<lambda>i. tick [] []) [] (Ok ()) =
       [Log ''certificate file not found: certs/private.pem.key'', Log ''config validation failed'']"
proof -
  have h: "\<not> snd (validate (\<lambda>f. f \<noteq> ''certs/private.pem.key'') sample_config)"
    by (simp add: validate_def sample_config_def)
  have v: "fst (validate (\<lambda>f. f \<noteq> ''certs/private.pem.key'') sample_config) =
       [Log ''certificate file not found: certs/private.pem.key'']"
    by (simp add: validate_def sample_config_def)
  show ?thesis
    using h v
      validate_gates_entry_points[of "\<lambda>f. f \<noteq> ''certs/private.pem.key''" sample_config
        "\<lambda>i. ok_connect" sample_loads "[]" "\<lambda>i. Ok ()" "Ok ()" "Ok True" "\<lambda>i. tick [] []" "[]" "Ok ()"]
    by simp
qed

text \<open>With the three files in place both entry points go on to the transport.\<close>

lemma connect_sets_up: "\<exists>rest. fst (snd (connect env s)) = MqttSetup (client_id s) # rest"
  by (simp add: connect_def connect_try_def Let_def split: reply.splits)

lemma pub_connect_sets_up:
  "\<exists>rest. fst (snd (pub_connect setup conn p)) = MqttSetup (pub_client_id p) # rest"
  by (simp add: pub_connect_def pub_connect_try_def Let_def split: reply.splits)

lemma publisher_main_connects_when_valid:
  assumes "snd (validate path_exists c)"
  shows "filter is_transport (publisher_main path_exists c setup conn tenvs tail r) \<noteq> []"
proof -
  obtain rest where
    "fst (snd (pub_connect setup conn (new_publisher c))) =
       MqttSetup (pub_client_id (new_publisher c)) # rest"
    using pub_connect_sets_up by blast
  then show ?thesis
    using assms validate_quiet[of path_exists c]
    by (simp add: publisher_main_def split_beta split: sum.splits)
qed

lemma subscriber_main_connects_when_valid:
  assumes "snd (validate path_exists c)"
  shows "filter is_transport (subscriber_main path_exists c envs loads script replies) \<noteq> []"
proof -
  obtain rest where
    "fst (snd (connect (envs 0) (new_subscriber c (two_digits 1)))) =
       MqttSetup (client_id (new_subscriber c (two_digits 1))) # rest"
    using connect_sets_up by blast
  then show ?thesis
    using assms validate_quiet[of path_exists c]
    by (simp add: subscriber_main_def start_all_def new_manager_def upt_rec[of 0]
        split_beta Let_def)
qed

section \<open>start_all\<close>

lemma start_loop_spec:
  "fst (start_loop envs i ss) =
     length (filter (\<lambda>(j, s). fst (connect (envs j) s) = Inr True) (enumerate i ss))
   \<and> snd (snd (start_loop envs i ss)) =
     map (\<lambda>(j, s). snd (snd (connect (envs j) s))) (enumerate i ss)"
  by (induction ss arbitrary: i) (simp_all add: split_beta Let_def)

text \<open>
  C6, as the code has it. \<open>start_all\<close> calls \<open>connect\<close> on every subscriber of the pool, in
  order, each with its own answers of the environment, and counts the calls that return
  true: a number between 0 and the size of the pool. It returns whether that count is
  positive, a \<open>bool\<close>, and not the count.
\<close>

theorem start_all_reports_any_success:
  "fst (start_loop envs 0 (subscribers m)) =
     length (filter (\<lambda>(i, s). fst (connect (envs i) s) = Inr True)
       (enumerate 0 (subscribers m)))
   \<and> fst (start_loop envs 0 (subscribers m)) \<le> length (subscribers m)
   \<and> fst (start_all envs m) = (0 < fst (start_loop envs 0 (subscribers m)))
   \<and> subscribers (snd (snd (start_all envs m))) =
       map (\<lambda>(i, s). snd (snd (connect (envs i) s))) (enumerate 0 (subscribers m))"
proof -
  have "length (filter (\<lambda>(i, s). fst (connect (envs i) s) = Inr True)
          (enumerate 0 (subscribers m))) \<le> length (enumerate 0 (subscribers m))"
    by (rule length_filter_le)
  then show ?thesis
    using start_loop_spec[of envs 0 "subscribers m"]
    by (simp add: start_all_def split_beta)
qed

text \<open>
  C6 as stated fails: in a pool of two subscribers that both connect, the count is 2 and
  the value returned is \<open>True\<close>, which as an integer is 1.
\<close>

theorem start_all_returns_flag_not_count:
  "fst (start_loop (\<lambda>i. ok_connect) 0 (subscribers (new_manager sample_config 2))) = 2
   \<and> fst (start_all (\<lambda>i. ok_connect) (new_manager sample_config 2)) = True
   \<and> int_of_bool (fst (start_all (\<lambda>i. ok_connect) (new_manager sample_config 2))) \<noteq> 2"
  by (simp add: start_all_def new_manager_def ok_connect_def connect_def connect_try_def
      int_of_bool_def upt_rec numeral_2_eq_2 split_beta Let_def)

section \<open>The publishing loop\<close>




























section \<open>The disconnect simulator\<close>


























end
